theory Spec2Isabelle
  imports Complex_Main
begin

section \<open>JavaScript values, errors and the browser\<close>

text \<open>
  The bundle is JavaScript. Values that the code only copies (option values, the argument
  of \<open>goog.module\<close>) are modelled by \<open>jsval\<close>; numbers are idealised as reals, which is
  harmless here because no arithmetic is done on them.
\<close>

datatype jsval = JUndefined | JNull | JBool bool | JNumber real | JString string | JObject nat

text \<open>
  A thrown exception. Dereferencing \<open>undefined\<close>, or calling what is not a function,
  throws a \<open>TypeError\<close>; \<open>PageRejection\<close> is the reason of a promise that the page
  rejected (a failed fetch, a failed instantiation of the WASM module).
\<close>

datatype error = TypeError | Error string | PageRejection

text \<open>
  How a call ends: a normal return (for an async function, a resolved promise) or a thrown
  exception (a rejected promise).
\<close>

datatype outcome = Resolved | Rejected error

text \<open>An external object that this code holds and calls, but never inspects.\<close>

datatype opaque = Opaque

type_synonym ArrayBuffer = "nat list"

record HTMLVideoElement =
  videoWidth :: nat
  videoHeight :: nat

record FrameMetadataWasm =
  width :: nat
  height :: nat
  timestampMs :: real

record FrameInputs =
  video :: HTMLVideoElement

text \<open>How \<open>fetch(url)\<close> and the reading of the response end.\<close>

datatype fetched = FetchRejects | NoBody | Body ArrayBuffer

text \<open>
  What the hosting page answers during one call: how \<open>fetch(url)\<close> ends; whether the
  script at a URL, once loaded, replaces \<open>window.createMediapipeSolutionsWasm\<close> by the
  module factory; whether the promise of that factory resolves; whether
  \<open>getContext('webgl2')\<close> returns a context; and the reading of \<open>performance.now()\<close>.
\<close>

record browser =
  fetch :: "string \<Rightarrow> fetched"
  definesApiFn :: "string \<Rightarrow> bool"
  apiFnResolves :: bool
  webgl2 :: bool
  now :: real

section \<open>solutions\_api: configuration records\<close>

type_synonym OptionType = nat

definition NUMBER :: OptionType where
  "NUMBER = 0"

record GraphOptionXRef =
  calculatorType :: string
  calculatorIndex :: nat
  fieldName :: string

record GraphOptionChangeRequest = GraphOptionXRef +
  valueNumber :: jsval

record OptionConfig =
  optionType :: OptionType
  graphOptionXref :: "GraphOptionXRef option"

record Graph =
  url :: string

text \<open>
  \<open>onRegisterListeners\<close> is a callback that receives \<open>attachListener\<close>; it is modelled by
  the list of \<open>wants\<close> arrays it passes to it, in order.
\<close>

record SolutionConfig =
  files :: "string list option"
  graph :: Graph
  config_locateFile :: "(string \<Rightarrow> string \<Rightarrow> string) option"
  options :: "(string \<rightharpoonup> OptionConfig) option"
  onRegisterListeners :: "string list list option"

section \<open>The calls made to the outside world\<close>

datatype event =
    SetWindow string
  | LoadScript string
  | GetWindow string
  | ApiFn
  | CreateCanvas
  | CreateContext
  | NewSolutionWasm
  | Fetch string
  | WasmLoadGraph ArrayBuffer
  | BindTextureToCanvas
  | GetContext string
  | Alert string
  | ConsoleLog string
  | NewChangeList
  | PushBackChange GraphOptionChangeRequest
  | ChangeOptions "GraphOptionChangeRequest list"
  | DeleteChangeList
  | NewStringList
  | PushBackString string
  | PacketListenerImplement "string list"
  | AttachMultiListener "string list"
  | DeleteStringList
  | TexImage2D HTMLVideoElement
  | WasmProcessFrame string FrameMetadataWasm
  | SolutionWasmDelete

section \<open>class Solution\<close>

definition API_EXPORT_NAME :: string where
  "API_EXPORT_NAME = ''createMediapipeSolutionsWasm''"

definition PACK_EXPORT_NAME :: string where
  "PACK_EXPORT_NAME = ''createMediapipeSolutionsPackedAssets''"

definition defaultLocateFile :: "string \<Rightarrow> string \<Rightarrow> string" where
  "defaultLocateFile file prefix = prefix @ file"

record Solution =
  config :: SolutionConfig
  needToInitializeWasm :: bool
  needToInitializeGraph :: bool
  locateFile :: "string \<Rightarrow> string \<Rightarrow> string"
  packagePath :: string
  wasm :: "opaque option"
  glCanvas :: "opaque option"
  solutionWasm :: "opaque option"
  gl :: "opaque option"
  pendingChanges :: "GraphOptionChangeRequest list option"

text \<open>
  A \<open>Solution\<close> object together with the log of the external calls made so far. The
  async methods below are modelled run to the settlement of their promise, with nothing
  else running at their \<open>yield\<close> points; calls that overlap are the subject of the section
  on calls in flight. A script element that is appended does load (the promise of
  \<open>loadScript\<close> has no way to reject), and the methods of the WASM binding, which is not
  part of this source, return; \<open>fetch\<close> and the module factory may reject.
\<close>

type_synonym machine = "Solution \<times> event list"

definition emit :: "event list \<Rightarrow> machine \<Rightarrow> machine" where
  "emit es m = (fst m, snd m @ es)"

definition seq :: "(machine \<Rightarrow> outcome \<times> machine) \<Rightarrow> (machine \<Rightarrow> outcome \<times> machine)
    \<Rightarrow> machine \<Rightarrow> outcome \<times> machine" where
  "seq p q m = (case p m of (Resolved, m') \<Rightarrow> q m' | (Rejected e, m') \<Rightarrow> (Rejected e, m'))"

text \<open>The constructor; \<open>path\<close> is what \<open>getPackagePath()\<close> returned.\<close>

definition new_Solution :: "SolutionConfig \<Rightarrow> string \<Rightarrow> Solution" where
  "new_Solution cfg path =
     \<lparr> config = cfg,
       needToInitializeWasm = True,
       needToInitializeGraph = True,
       locateFile = (case config_locateFile cfg of Some f \<Rightarrow> f | None \<Rightarrow> defaultLocateFile),
       packagePath = path,
       wasm = None, glCanvas = None, solutionWasm = None, gl = None,
       pendingChanges = None \<rparr>"

definition close :: "machine \<Rightarrow> outcome \<times> machine" where
  "close m =
     (case solutionWasm (fst m) of
        Some _ \<Rightarrow> (Resolved, emit [SolutionWasmDelete] m)
      | None \<Rightarrow> (Resolved, m))"

subsection \<open>GraphDataImpl.toArrayBuffer and Solution.loadGraph\<close>

record GraphDataImpl =
  gd_graph :: Graph
  gd_locateFile :: "string \<Rightarrow> string \<Rightarrow> string"
  gd_packagePath :: string

definition toArrayBuffer :: "browser \<Rightarrow> GraphDataImpl \<Rightarrow> event list \<times> (error + ArrayBuffer)" where
  "toArrayBuffer b g =
     (if url (gd_graph g) \<noteq> [] then
        (let u = gd_locateFile g (url (gd_graph g)) (gd_packagePath g) in
           (case fetch b u of
              FetchRejects \<Rightarrow> ([Fetch u], Inl PageRejection)
            | Body body \<Rightarrow> ([Fetch u], Inr body)
            | NoBody \<Rightarrow> ([Fetch u], Inr [])))
      else ([], Inr []))"

definition loadGraph :: "browser \<Rightarrow> GraphDataImpl \<Rightarrow> machine \<Rightarrow> outcome \<times> machine" where
  "loadGraph b g m =
     (case toArrayBuffer b g of
        (es, Inl e) \<Rightarrow> (Rejected e, emit es m)
      | (es, Inr graphData) \<Rightarrow>
          (let m1 = emit es m in
             (case solutionWasm (fst m1) of
                None \<Rightarrow> (Rejected TypeError, m1)
              | Some _ \<Rightarrow> (Resolved, emit [WasmLoadGraph graphData] m1))))"

subsection \<open>Solution.tryToInitializeWasm\<close>

text \<open>
  \<open>setWindow\<close> stores an object under each export name, and only a script loaded
  afterwards can turn \<open>window.createMediapipeSolutionsWasm\<close> into a function. So
  \<open>apiFn(packFn)\<close> throws a \<open>TypeError\<close> unless one of the scripts just loaded defines
  the factory; it is the case, in particular, when \<open>config.files\<close> is undefined or empty.
  The flag is cleared on the last line only: a call that throws or rejects before leaves
  it set.
\<close>

definition tryToInitializeWasm :: "browser \<Rightarrow> machine \<Rightarrow> outcome \<times> machine" where
  "tryToInitializeWasm b m =
     (if \<not> needToInitializeWasm (fst m) then (Resolved, m)
      else
        (let s = fst m;
             fs = (case files (config s) of Some xs \<Rightarrow> xs | None \<Rightarrow> []);
             urls = map (\<lambda>x. locateFile s x (packagePath s)) fs;
             m0 = emit ([SetWindow API_EXPORT_NAME, SetWindow PACK_EXPORT_NAME]
                       @ map LoadScript urls
                       @ [GetWindow API_EXPORT_NAME, GetWindow PACK_EXPORT_NAME]) m
         in if \<not> list_ex (definesApiFn b) urls then (Rejected TypeError, m0)
            else
              (let m1 = emit [ApiFn] m0 in
                 if \<not> apiFnResolves b then (Rejected PageRejection, m1)
                 else
                   (let m2 = emit [CreateCanvas, CreateContext]
                          (fst m1\<lparr>wasm := Some Opaque, glCanvas := Some Opaque\<rparr>, snd m1);
                        m3 = emit [NewSolutionWasm]
                          (fst m2\<lparr>solutionWasm := Some Opaque\<rparr>, snd m2);
                        graphData = \<lparr> gd_graph = graph (config s), gd_locateFile = locateFile s,
                                      gd_packagePath = packagePath s \<rparr>
                    in (case loadGraph b graphData m3 of
                          (Rejected e, m4) \<Rightarrow> (Rejected e, m4)
                        | (Resolved, m4) \<Rightarrow>
                            (Resolved, (fst m4\<lparr>needToInitializeWasm := False\<rparr>, snd m4)))))))"

subsection \<open>Solution.setOptions\<close>

fun collectChanges :: "(string \<rightharpoonup> OptionConfig) \<Rightarrow> (string \<times> jsval) list
    \<Rightarrow> GraphOptionChangeRequest list" where
  "collectChanges oc [] = []"
| "collectChanges oc ((option, v) # rest) =
     (case oc option of
        None \<Rightarrow> collectChanges oc rest
      | Some optionConfig \<Rightarrow>
          (case graphOptionXref optionConfig of
             None \<Rightarrow> collectChanges oc rest
           | Some xref \<Rightarrow>
               GraphOptionXRef.extend xref
                 (GraphOptionChangeRequest.fields
                    (if optionType optionConfig = NUMBER then v else JUndefined))
               # collectChanges oc rest))"

text \<open>
  The options object is given as its entries in the order of \<open>Object.keys\<close>. The method
  touches the object only and makes no external call.
\<close>

definition setOptions :: "(string \<times> jsval) list \<Rightarrow> Solution \<Rightarrow> Solution" where
  "setOptions opts s =
     (case options (config s) of
        None \<Rightarrow> s
      | Some oc \<Rightarrow>
          (let changes = collectChanges oc opts in
             if length changes \<noteq> 0
             then s\<lparr>needToInitializeGraph := True, pendingChanges := Some changes\<rparr>
             else s))"

subsection \<open>Solution.attachListener and Solution.tryToInitializeGraph\<close>

definition attachListener :: "string list \<Rightarrow> machine \<Rightarrow> outcome \<times> machine" where
  "attachListener wants m =
     (case wasm (fst m) of
        None \<Rightarrow> (Rejected TypeError, m)
      | Some _ \<Rightarrow>
          (let m1 = emit ([NewStringList] @ map PushBackString wants
                          @ [PacketListenerImplement wants]) m in
             (case solutionWasm (fst m1) of
                None \<Rightarrow> (Rejected TypeError, m1)
              | Some _ \<Rightarrow> (Resolved, emit [AttachMultiListener wants, DeleteStringList] m1))))"

fun registerListeners :: "string list list \<Rightarrow> machine \<Rightarrow> outcome \<times> machine" where
  "registerListeners [] m = (Resolved, m)"
| "registerListeners (wants # rest) m = seq (attachListener wants) (registerListeners rest) m"

definition applyPendingChanges :: "machine \<Rightarrow> outcome \<times> machine" where
  "applyPendingChanges m =
     (case pendingChanges (fst m) of
        None \<Rightarrow> (Resolved, m)
      | Some changes \<Rightarrow>
          (case wasm (fst m) of
             None \<Rightarrow> (Rejected TypeError, m)
           | Some _ \<Rightarrow>
               (let m1 = emit ([NewChangeList] @ map PushBackChange changes
                               @ [ChangeOptions changes, DeleteChangeList]) m
                in (Resolved, (fst m1\<lparr>pendingChanges := None\<rparr>, snd m1)))))"

definition tryToInitializeGraph :: "browser \<Rightarrow> machine \<Rightarrow> outcome \<times> machine" where
  "tryToInitializeGraph b m =
     (if \<not> needToInitializeGraph (fst m) then (Resolved, m)
      else
        (case solutionWasm (fst m) of
           None \<Rightarrow> (Rejected TypeError, m)
         | Some _ \<Rightarrow>
             (let m1 = emit [BindTextureToCanvas] m in
                (case glCanvas (fst m1) of
                   None \<Rightarrow> (Rejected TypeError, m1)
                 | Some _ \<Rightarrow>
                     (let m2 = emit [GetContext ''webgl2''] m1 in
                        if \<not> webgl2 b then
                          (Resolved,
                           emit [Alert ''Failed to create WebGL canvas context when passing video frame.''] m2)
                        else
                          seq applyPendingChanges
                            (seq (\<lambda>m4. case onRegisterListeners (config (fst m4)) of
                                          None \<Rightarrow> (Resolved, m4)
                                        | Some regs \<Rightarrow> registerListeners regs m4)
                                 (\<lambda>m5. (Resolved, (fst m5\<lparr>needToInitializeGraph := False\<rparr>, snd m5))))
                            (fst m2\<lparr>gl := Some Opaque\<rparr>, snd m2))))))"

subsection \<open>Solution.initialize and Solution.processFrame\<close>

definition initialize :: "browser \<Rightarrow> machine \<Rightarrow> outcome \<times> machine" where
  "initialize b = seq (tryToInitializeWasm b) (tryToInitializeGraph b)"

text \<open>The \<open>metadata\<close> parameter is kept in the signature, as in the source.\<close>

definition processFrame :: "browser \<Rightarrow> string \<Rightarrow> FrameMetadataWasm \<Rightarrow> FrameInputs \<Rightarrow> machine
    \<Rightarrow> outcome \<times> machine" where
  "processFrame b inputStreamName metadata inputs =
     seq (initialize b)
       (\<lambda>m. case solutionWasm (fst m) of
               None \<Rightarrow> (Rejected TypeError, m)
             | Some _ \<Rightarrow>
                 (let m1 = emit [BindTextureToCanvas] m in
                    (case gl (fst m1) of
                       None \<Rightarrow> (Rejected TypeError, m1)
                     | Some _ \<Rightarrow>
                         (Resolved,
                          emit [TexImage2D (video inputs),
                                WasmProcessFrame inputStreamName
                                  \<lparr> width = videoWidth (video inputs),
                                    height = videoHeight (video inputs),
                                    timestampMs = now b \<rparr>] m1))))"

subsection \<open>Sequences of calls on one Solution\<close>

datatype call =
    Initialize browser
  | ProcessFrame browser string FrameMetadataWasm FrameInputs
  | SetOptions "(string \<times> jsval) list"
  | Close

fun exec :: "call \<Rightarrow> machine \<Rightarrow> outcome \<times> machine" where
  "exec (Initialize b) m = initialize b m"
| "exec (ProcessFrame b n md i) m = processFrame b n md i m"
| "exec (SetOptions opts) m = (Resolved, (setOptions opts (fst m), snd m))"
| "exec Close m = close m"

text \<open>The object outlives a rejected call, so the next call runs on whatever it left.\<close>

fun run :: "call list \<Rightarrow> machine \<Rightarrow> machine" where
  "run [] m = m"
| "run (c # cs) m = run cs (snd (exec c m))"

fun callsInitialize :: "call \<Rightarrow> bool" where
  "callsInitialize (Initialize b) = True"
| "callsInitialize (ProcessFrame b n md i) = True"
| "callsInitialize (SetOptions opts) = False"
| "callsInitialize Close = False"

subsection \<open>Calls in flight\<close>

text \<open>
  \<open>tslib.__awaiter\<close> runs the body of an async method synchronously up to its first
  \<open>yield\<close> and continues it from a promise callback. An \<open>initialize()\<close> call that has
  started but not settled is therefore suspended at one of the following points of
  \<open>initialize\<close>, \<open>tryToInitializeWasm\<close>, \<open>loadGraph\<close> and \<open>toArrayBuffer\<close>:
  waiting for \<open>Promise.all\<close> of the script loads, for \<open>apiFn(packFn)\<close>, for \<open>fetch\<close>, for
  \<open>graph.toArrayBuffer()\<close>, for \<open>this.loadGraph(graphData)\<close>, for
  \<open>this.tryToInitializeWasm()\<close> or for \<open>this.tryToInitializeGraph()\<close>.
\<close>

datatype suspended =
    AwaitScripts
  | AwaitApiFn
  | AwaitFetch string
  | AwaitArrayBuffer ArrayBuffer
  | AwaitLoadGraph
  | AwaitWasm
  | AwaitGraph outcome

datatype status = Suspended suspended | Settled outcome

text \<open>The call itself: the code up to the first \<open>yield\<close> that suspends it.\<close>

definition startInitialize :: "machine \<Rightarrow> status \<times> machine" where
  "startInitialize m =
     (if \<not> needToInitializeWasm (fst m) then (Suspended AwaitWasm, m)
      else
        (let s = fst m;
             fs = (case files (config s) of Some xs \<Rightarrow> xs | None \<Rightarrow> []);
             urls = map (\<lambda>x. locateFile s x (packagePath s)) fs
         in (Suspended AwaitScripts,
             emit ([SetWindow API_EXPORT_NAME, SetWindow PACK_EXPORT_NAME]
                   @ map LoadScript urls) m)))"

text \<open>
  The code from one suspension point to the next, or to the end of \<open>initialize\<close>. The
  scripts that a call appended are taken to run just before its \<open>Promise.all\<close> resolves,
  so that at \<open>AwaitScripts\<close> the factory is defined exactly when one of them defines it. A
  rejection of an awaited promise is thrown into the waiting method, which nothing
  catches: the call settles as rejected.
\<close>

fun resume :: "browser \<Rightarrow> suspended \<Rightarrow> machine \<Rightarrow> status \<times> machine" where
  "resume b AwaitScripts m =
     (let s = fst m;
          fs = (case files (config s) of Some xs \<Rightarrow> xs | None \<Rightarrow> []);
          urls = map (\<lambda>x. locateFile s x (packagePath s)) fs;
          m0 = emit [GetWindow API_EXPORT_NAME, GetWindow PACK_EXPORT_NAME] m
      in if \<not> list_ex (definesApiFn b) urls then (Settled (Rejected TypeError), m0)
         else (Suspended AwaitApiFn, emit [ApiFn] m0))"
| "resume b AwaitApiFn m =
     (if \<not> apiFnResolves b then (Settled (Rejected PageRejection), m)
      else
        (let m2 = emit [CreateCanvas, CreateContext]
                    (fst m\<lparr>wasm := Some Opaque, glCanvas := Some Opaque\<rparr>, snd m);
             m3 = emit [NewSolutionWasm] (fst m2\<lparr>solutionWasm := Some Opaque\<rparr>, snd m2);
             s = fst m3
         in if url (graph (config s)) \<noteq> [] then
              (let u = locateFile s (url (graph (config s))) (packagePath s)
               in (Suspended (AwaitFetch u), emit [Fetch u] m3))
            else (Suspended (AwaitArrayBuffer []), m3)))"
| "resume b (AwaitFetch u) m =
     (case fetch b u of
        FetchRejects \<Rightarrow> (Settled (Rejected PageRejection), m)
      | Body body \<Rightarrow> (Suspended (AwaitArrayBuffer body), m)
      | NoBody \<Rightarrow> (Suspended (AwaitArrayBuffer []), m))"
| "resume b (AwaitArrayBuffer graphData) m =
     (case solutionWasm (fst m) of
        None \<Rightarrow> (Settled (Rejected TypeError), m)
      | Some _ \<Rightarrow> (Suspended AwaitLoadGraph, emit [WasmLoadGraph graphData] m))"
| "resume b AwaitLoadGraph m =
     (Suspended AwaitWasm, (fst m\<lparr>needToInitializeWasm := False\<rparr>, snd m))"
| "resume b AwaitWasm m =
     (case tryToInitializeGraph b m of (r, m') \<Rightarrow> (Suspended (AwaitGraph r), m'))"
| "resume b (AwaitGraph r) m = (Settled r, m)"

text \<open>Resuming one call again and again, at most \<open>n\<close> times, with nothing in between.\<close>

fun settle :: "nat \<Rightarrow> browser \<Rightarrow> status \<times> machine \<Rightarrow> status \<times> machine" where
  "settle 0 b x = x"
| "settle (Suc n) b (Settled r, m) = (Settled r, m)"
| "settle (Suc n) b (Suspended p, m) = settle n b (resume b p m)"

text \<open>
  The object, the log and the \<open>initialize()\<close> calls in flight, oldest first. A step either
  makes a new call or resumes the call at a given position.
\<close>

type_synonym system = "machine \<times> suspended list"

datatype action = CallInitialize | Resume browser nat

fun act :: "action \<Rightarrow> system \<Rightarrow> system" where
  "act CallInitialize (m, ts) =
     (case startInitialize m of
        (Suspended p, m') \<Rightarrow> (m', ts @ [p])
      | (Settled r, m') \<Rightarrow> (m', ts))"
| "act (Resume b k) (m, ts) =
     (if k < length ts then
        (case resume b (ts ! k) m of
           (Suspended p, m') \<Rightarrow> (m', ts[k := p])
         | (Settled r, m') \<Rightarrow> (m', take k ts @ drop (Suc k) ts))
      else (m, ts))"

fun acts :: "action list \<Rightarrow> system \<Rightarrow> system" where
  "acts [] x = x"
| "acts (a # as) x = acts as (act a x)"

subsection \<open>Counting the loads in a log\<close>

fun isLoadScript :: "event \<Rightarrow> bool" where
  "isLoadScript (LoadScript u) = True"
| "isLoadScript e = False"

fun isWasmLoadGraph :: "event \<Rightarrow> bool" where
  "isWasmLoadGraph (WasmLoadGraph g) = True"
| "isWasmLoadGraph e = False"

definition scriptLoads :: "event list \<Rightarrow> nat" where
  "scriptLoads tr = length (filter isLoadScript tr)"

definition apiFnCalls :: "event list \<Rightarrow> nat" where
  "apiFnCalls tr = length (filter (\<lambda>e. e = ApiFn) tr)"

definition solutionWasmConstructions :: "event list \<Rightarrow> nat" where
  "solutionWasmConstructions tr = length (filter (\<lambda>e. e = NewSolutionWasm) tr)"

definition graphLoads :: "event list \<Rightarrow> nat" where
  "graphLoads tr = length (filter isWasmLoadGraph tr)"

definition configFiles :: "SolutionConfig \<Rightarrow> string list" where
  "configFiles cfg = (case files cfg of Some xs \<Rightarrow> xs | None \<Rightarrow> [])"

subsection \<open>The listener built by Solution.attachListener\<close>

text \<open>
  A \<open>ResultWasm\<close> is an object of the WASM binding with three tests and three getters;
  rectangles and landmark vectors are opaque to this code.
\<close>

record ('r, 'l) ResultWasm =
  isNumber :: bool
  getNumber :: real
  isRect :: bool
  getRect :: 'r
  isLandmarks :: bool
  getLandmarks :: 'l

datatype ('r, 'l) RecognizedResult = RUndefined | RNumber real | RRect 'r | RLandmarks 'l

definition extractWasmResult :: "('r, 'l) ResultWasm \<Rightarrow> ('r, 'l) RecognizedResult" where
  "extractWasmResult result =
     (if isNumber result then RNumber (getNumber result)
      else if isRect result then RRect (getRect result)
      else if isLandmarks result then RLandmarks (getLandmarks result)
      else RUndefined)"

text \<open>
  The result vector handed over by the engine is a list; \<open>values.get(index)\<close> beyond its
  end yields no object, and \<open>extractWasmResult\<close> then throws on the first method call.
\<close>

definition vectorGet :: "'a list \<Rightarrow> nat \<Rightarrow> 'a option" where
  "vectorGet vs i = (if i < length vs then Some (vs ! i) else None)"

text \<open>
  \<open>wantsCopy[index]\<close>: an index beyond the copy reads \<open>undefined\<close>, which as a property
  key is the string \<open>undefined\<close>.
\<close>

definition wantsKey :: "string list \<Rightarrow> nat \<Rightarrow> string" where
  "wantsKey wantsCopy i = (if i < length wantsCopy then wantsCopy ! i else ''undefined'')"

type_synonym ('r, 'l) ResultMap = "string \<rightharpoonup> ('r, 'l) RecognizedResult"

fun fillResults :: "string list \<Rightarrow> ('r, 'l) ResultWasm list \<Rightarrow> nat list \<Rightarrow> ('r, 'l) ResultMap
    \<Rightarrow> error + ('r, 'l) ResultMap" where
  "fillResults wantsCopy vs [] results = Inr results"
| "fillResults wantsCopy vs (index # rest) results =
     (case vectorGet vs index of
        None \<Rightarrow> Inl TypeError
      | Some r \<Rightarrow>
          fillResults wantsCopy vs rest
            (results(wantsKey wantsCopy index \<mapsto> extractWasmResult r)))"

text \<open>
  \<open>onResults\<close> of the listener made by \<open>attachListener(wants, listener)\<close>: \<open>wantsCopy\<close> is
  the copy taken when attaching, \<open>wants\<close> the caller's array as it is when the engine
  calls back. The value is the list of arguments with which \<open>listener\<close> is called.
\<close>

definition onResults :: "string list \<Rightarrow> string list \<Rightarrow> ('r, 'l) ResultWasm list
    \<Rightarrow> error + ('r, 'l) ResultMap list" where
  "onResults wantsCopy wants vs =
     (case fillResults wantsCopy vs [0 ..< length wants] Map.empty of
        Inl e \<Rightarrow> Inl e
      | Inr results \<Rightarrow> Inr [results])"

section \<open>class PoseSolution\<close>

text \<open>The JavaScript values that count as false; a missing property reads \<open>undefined\<close>.\<close>

datatype falsy = FUndefined | FNull | FFalse | FZero | FNaN | FEmptyString

datatype videoField = Falsy falsy | Video HTMLVideoElement

record Inputs =
  inputs_video :: videoField

record PoseSolutionConfig =
  pose_locateFile :: "(string \<Rightarrow> string \<Rightarrow> string) option"

record PoseSolution =
  solution :: Solution
  listener :: "nat option"

type_synonym poseMachine = "PoseSolution \<times> event list"

definition poseConfig :: "(string \<Rightarrow> string \<Rightarrow> string) option \<Rightarrow> SolutionConfig" where
  "poseConfig lf =
     \<lparr> files = Some [''pose_tracking_solution_packed_assets_loader.js'',
                      ''pose_tracking_solution_wasm_bin.js''],
       graph = \<lparr> url = ''pose_web.binarypb'' \<rparr>,
       config_locateFile = lf,
       options = Some [''poseThreshold'' \<mapsto>
                   \<lparr> optionType = NUMBER,
                     graphOptionXref = Some \<lparr> calculatorType = ''ThresholdingCalculator'',
                                              calculatorIndex = 1,
                                              fieldName = ''threshold'' \<rparr> \<rparr>],
       onRegisterListeners = Some ([''pose_landmarks'', ''pose_rect''] # []) \<rparr>"

definition new_PoseSolution :: "PoseSolutionConfig option \<Rightarrow> string \<Rightarrow> PoseSolution" where
  "new_PoseSolution cfg path =
     \<lparr> solution = new_Solution
         (poseConfig (case cfg of Some c \<Rightarrow> pose_locateFile c | None \<Rightarrow> None)) path,
       listener = None \<rparr>"

definition onSolution :: "(machine \<Rightarrow> outcome \<times> machine) \<Rightarrow> poseMachine \<Rightarrow> outcome \<times> poseMachine" where
  "onSolution f p =
     (case f (solution (fst p), snd p) of
        (r, (s, tr)) \<Rightarrow> (r, (fst p\<lparr>solution := s\<rparr>, tr)))"

definition PoseSolution_close :: "poseMachine \<Rightarrow> outcome \<times> poseMachine" where
  "PoseSolution_close p =
     (case onSolution close p of
        (Resolved, p') \<Rightarrow> (Resolved, p')
      | (Rejected e, p') \<Rightarrow> (Rejected e, p'))"

definition PoseSolution_onResults :: "nat \<Rightarrow> PoseSolution \<Rightarrow> PoseSolution" where
  "PoseSolution_onResults l p = p\<lparr>listener := Some l\<rparr>"

definition PoseSolution_initialize :: "browser \<Rightarrow> poseMachine \<Rightarrow> outcome \<times> poseMachine" where
  "PoseSolution_initialize b = onSolution (initialize b)"

text \<open>\<open>t0\<close> is the reading of \<open>performance.now()\<close> taken by \<open>send\<close> itself.\<close>

definition send :: "browser \<Rightarrow> real \<Rightarrow> Inputs \<Rightarrow> poseMachine \<Rightarrow> outcome \<times> poseMachine" where
  "send b t0 inputs p =
     (case inputs_video inputs of
        Falsy f \<Rightarrow> (Resolved, p)
      | Video v \<Rightarrow>
          onSolution
            (processFrame b ''input_frames_gpu''
               \<lparr> width = videoWidth v, height = videoHeight v, timestampMs = t0 \<rparr>
               \<lparr> video = v \<rparr>) p)"

definition PoseSolution_setOptions :: "(string \<times> jsval) list \<Rightarrow> PoseSolution \<Rightarrow> PoseSolution" where
  "PoseSolution_setOptions opts p = p\<lparr>solution := setOptions opts (solution p)\<rparr>"

section \<open>goog.module\<close>

datatype ModuleType = ES6 | GOOG

record ModuleLoaderState =
  moduleName :: "string option"
  declareLegacyNamespace :: bool
  moduleType :: "ModuleType option"

text \<open>
  The loader state that \<open>goog.module\<close> reads or writes. \<open>objectByName n\<close> says whether
  \<open>goog.getObjectByName(n)\<close> is neither null nor undefined.
\<close>

record goog =
  moduleLoaderState :: "ModuleLoaderState option"
  loadedModules :: "string \<Rightarrow> bool"
  implicitNamespaces :: "string \<rightharpoonup> bool"
  objectByName :: "string \<Rightarrow> bool"

definition COMPILED :: bool where
  "COMPILED = False"

definition isLetter :: "char \<Rightarrow> bool" where
  "isLetter c = (let n = (of_char c :: nat) in (97 \<le> n \<and> n \<le> 122) \<or> (65 \<le> n \<and> n \<le> 90))"

definition isDigit :: "char \<Rightarrow> bool" where
  "isDigit c = (let n = (of_char c :: nat) in 48 \<le> n \<and> n \<le> 57)"

text \<open>The character classes \<open>[a-zA-Z_$]\<close> and \<open>[a-zA-Z0-9._$]\<close>.\<close>

definition identStart :: "char \<Rightarrow> bool" where
  "identStart c = (isLetter c \<or> c = CHR ''_'' \<or> c = CHR ''$'')"

definition identPart :: "char \<Rightarrow> bool" where
  "identPart c = (isLetter c \<or> isDigit c \<or> c = CHR ''.'' \<or> c = CHR ''_'' \<or> c = CHR ''$'')"

text \<open>
  \<open>goog.VALID_MODULE_RE_ = /^[a-zA-Z_$][a-zA-Z0-9._$]*$/\<close>: without the multiline flag the
  anchors are the two ends of the string.
\<close>

fun VALID_MODULE_RE :: "string \<Rightarrow> bool" where
  "VALID_MODULE_RE [] = False"
| "VALID_MODULE_RE (c # cs) = (identStart c \<and> list_all identPart cs)"

text \<open>\<open>name.search(re)\<close>: the index of the first match, which the anchor pins to 0, or -1.\<close>

definition search :: "string \<Rightarrow> int" where
  "search name = (if VALID_MODULE_RE name then 0 else - 1)"

definition isInGoogModuleLoader :: "goog \<Rightarrow> bool" where
  "isInGoogModuleLoader g =
     (case moduleLoaderState g of None \<Rightarrow> False | Some st \<Rightarrow> moduleType st = Some GOOG)"

definition isProvided :: "goog \<Rightarrow> string \<Rightarrow> bool" where
  "isProvided g name =
     (loadedModules g name \<or> (implicitNamespaces g name \<noteq> Some True \<and> objectByName g name))"

definition loadedIncorrectly :: "string \<Rightarrow> string" where
  "loadedIncorrectly name =
     ''Module '' @ name @ '' has been loaded incorrectly. Note, '' @
     ''modules cannot be loaded as normal scripts. They require some kind of '' @
     ''pre-processing step. You'' @ [CHR 0x27] @ ''re likely trying to load a module via a '' @
     ''script tag or as a part of a concatenated bundle without rewriting the '' @
     ''module. For more info see: '' @
     ''https://github.com/google/closure-library/wiki/goog.module:-an-ES6-module-like-alternative-to-goog.provide.''"

definition alreadyDeclared :: "string \<Rightarrow> string" where
  "alreadyDeclared name = ''Namespace '' @ [CHR 0x22] @ name @ [CHR 0x22] @ '' already declared.''"

definition goog_module :: "jsval \<Rightarrow> goog \<Rightarrow> outcome \<times> goog" where
  "goog_module arg g =
     (case arg of
        JString name \<Rightarrow>
          (if name = [] \<or> search name = - 1 then (Rejected (Error ''Invalid module identifier''), g)
           else if \<not> isInGoogModuleLoader g then (Rejected (Error (loadedIncorrectly name)), g)
           else
             (case moduleLoaderState g of
                None \<Rightarrow> (Rejected TypeError, g)
              | Some st \<Rightarrow>
                  (if (case moduleName st of Some n \<Rightarrow> n \<noteq> [] | None \<Rightarrow> False)
                   then (Rejected (Error ''goog.module may only be called once per module.''), g)
                   else
                     (let g1 = g\<lparr>moduleLoaderState := Some (st\<lparr>moduleName := Some name\<rparr>)\<rparr> in
                        if \<not> COMPILED then
                          (if isProvided g1 name then (Rejected (Error (alreadyDeclared name)), g1)
                           else (Resolved,
                                 g1\<lparr>implicitNamespaces := (implicitNamespaces g1)(name := None)\<rparr>))
                        else (Resolved, g1)))))
      | _ \<Rightarrow> (Rejected (Error ''Invalid module identifier''), g))"

text \<open>
  The identifiers that \<open>goog.module\<close> is meant to accept: non-empty strings that match the
  pattern.
\<close>

definition validModuleIdentifier :: "jsval \<Rightarrow> bool" where
  "validModuleIdentifier arg =
     (case arg of JString name \<Rightarrow> name \<noteq> [] \<and> VALID_MODULE_RE name | _ \<Rightarrow> False)"

section \<open>Reading a log\<close>

text \<open>The events that a call added to the log.\<close>

definition newEvents :: "machine \<Rightarrow> machine \<Rightarrow> event list" where
  "newEvents m m' = drop (length (snd m)) (snd m')"

text \<open>The arguments of the \<open>changeOptions\<close> and \<open>processFrame\<close> calls in a log, in order.\<close>

fun changeOptionsArg :: "event \<Rightarrow> GraphOptionChangeRequest list list" where
  "changeOptionsArg (ChangeOptions cs) = [cs]"
| "changeOptionsArg e = []"

definition changeOptionsCalls :: "event list \<Rightarrow> GraphOptionChangeRequest list list" where
  "changeOptionsCalls es = concat (map changeOptionsArg es)"

fun processFrameArg :: "event \<Rightarrow> (string \<times> FrameMetadataWasm) list" where
  "processFrameArg (WasmProcessFrame n md) = [(n, md)]"
| "processFrameArg e = []"

definition processFrameCalls :: "event list \<Rightarrow> (string \<times> FrameMetadataWasm) list" where
  "processFrameCalls es = concat (map processFrameArg es)"

fun isConsoleLog :: "event \<Rightarrow> bool" where
  "isConsoleLog (ConsoleLog msg) = True"
| "isConsoleLog e = False"

fun isAlert :: "event \<Rightarrow> bool" where
  "isAlert (Alert msg) = True"
| "isAlert e = False"

text \<open>
  An option key maps to a graph parameter reference when the static option config has an
  entry for it that carries a \<open>graphOptionXref\<close>.
\<close>

definition mapsToGraphParameter :: "SolutionConfig \<Rightarrow> string \<Rightarrow> bool" where
  "mapsToGraphParameter cfg k =
     (case options cfg of
        None \<Rightarrow> False
      | Some oc \<Rightarrow> (case oc k of None \<Rightarrow> False | Some c \<Rightarrow> graphOptionXref c \<noteq> None))"

section \<open>The two initialisation steps written out\<close>

text \<open>
  Closed forms of what \<open>tryToInitializeWasm\<close> and \<open>tryToInitializeGraph\<close> do; the
  lemmas below prove that the methods agree with them.
\<close>

definition handlesSet :: "Solution \<Rightarrow> bool" where
  "handlesSet s = (wasm s \<noteq> None \<and> glCanvas s \<noteq> None \<and> solutionWasm s \<noteq> None)"

definition ready :: "Solution \<Rightarrow> bool" where
  "ready s = (needToInitializeWasm s \<or> handlesSet s)"

definition scriptUrls :: "Solution \<Rightarrow> string list" where
  "scriptUrls s = map (\<lambda>x. locateFile s x (packagePath s)) (configFiles (config s))"

definition graphUrl :: "Solution \<Rightarrow> string" where
  "graphUrl s = locateFile s (url (graph (config s))) (packagePath s)"

definition fetchFails :: "browser \<Rightarrow> Solution \<Rightarrow> bool" where
  "fetchFails b s = (url (graph (config s)) \<noteq> [] \<and> fetch b (graphUrl s) = FetchRejects)"

definition graphFetchEvents :: "Solution \<Rightarrow> event list" where
  "graphFetchEvents s = (if url (graph (config s)) \<noteq> [] then [Fetch (graphUrl s)] else [])"

definition graphBytes :: "browser \<Rightarrow> Solution \<Rightarrow> ArrayBuffer" where
  "graphBytes b s =
     (if url (graph (config s)) \<noteq> [] then
        (case fetch b (graphUrl s) of Body body \<Rightarrow> body | NoBody \<Rightarrow> [] | FetchRejects \<Rightarrow> [])
      else [])"

definition wasmStepOutcome :: "browser \<Rightarrow> Solution \<Rightarrow> outcome" where
  "wasmStepOutcome b s =
     (if \<not> needToInitializeWasm s then Resolved
      else if \<not> list_ex (definesApiFn b) (scriptUrls s) then Rejected TypeError
      else if \<not> apiFnResolves b then Rejected PageRejection
      else if fetchFails b s then Rejected PageRejection
      else Resolved)"

definition wasmStepEvents :: "browser \<Rightarrow> Solution \<Rightarrow> event list" where
  "wasmStepEvents b s =
     (if \<not> needToInitializeWasm s then []
      else
        [SetWindow API_EXPORT_NAME, SetWindow PACK_EXPORT_NAME]
        @ map LoadScript (scriptUrls s)
        @ [GetWindow API_EXPORT_NAME, GetWindow PACK_EXPORT_NAME]
        @ (if \<not> list_ex (definesApiFn b) (scriptUrls s) then []
           else
             [ApiFn]
             @ (if \<not> apiFnResolves b then []
                else
                  [CreateCanvas, CreateContext, NewSolutionWasm] @ graphFetchEvents s
                  @ (if fetchFails b s then [] else [WasmLoadGraph (graphBytes b s)]))))"

definition wasmStepState :: "browser \<Rightarrow> Solution \<Rightarrow> Solution" where
  "wasmStepState b s =
     (if \<not> needToInitializeWasm s then s
      else if \<not> list_ex (definesApiFn b) (scriptUrls s) then s
      else if \<not> apiFnResolves b then s
      else if fetchFails b s then
        s\<lparr>wasm := Some Opaque, glCanvas := Some Opaque, solutionWasm := Some Opaque\<rparr>
      else
        s\<lparr>wasm := Some Opaque, glCanvas := Some Opaque, solutionWasm := Some Opaque,
          needToInitializeWasm := False\<rparr>)"

definition attachEvents :: "string list \<Rightarrow> event list" where
  "attachEvents wants =
     [NewStringList] @ map PushBackString wants
     @ [PacketListenerImplement wants, AttachMultiListener wants, DeleteStringList]"

definition changeEvents :: "GraphOptionChangeRequest list option \<Rightarrow> event list" where
  "changeEvents pc =
     (case pc of None \<Rightarrow> []
      | Some changes \<Rightarrow> [NewChangeList] @ map PushBackChange changes
                        @ [ChangeOptions changes, DeleteChangeList])"

definition alertMessage :: string where
  "alertMessage = ''Failed to create WebGL canvas context when passing video frame.''"

definition registerEvents :: "Solution \<Rightarrow> event list" where
  "registerEvents s =
     (case onRegisterListeners (config s) of
        None \<Rightarrow> []
      | Some regs \<Rightarrow> concat (map attachEvents regs))"

definition graphStepEvents :: "browser \<Rightarrow> Solution \<Rightarrow> event list" where
  "graphStepEvents b s =
     (if \<not> needToInitializeGraph s then []
      else if \<not> webgl2 b then [BindTextureToCanvas, GetContext ''webgl2'', Alert alertMessage]
      else [BindTextureToCanvas, GetContext ''webgl2''] @ changeEvents (pendingChanges s)
           @ registerEvents s)"

definition graphStepState :: "browser \<Rightarrow> Solution \<Rightarrow> Solution" where
  "graphStepState b s =
     (if \<not> needToInitializeGraph s then s
      else if \<not> webgl2 b then s
      else s\<lparr>gl := Some Opaque, pendingChanges := None, needToInitializeGraph := False\<rparr>)"

text \<open>
  What every call keeps true of the object: the handles are set once the flag is cleared,
  and a graph that needs no initialisation has its context.
\<close>

definition wellFormed :: "Solution \<Rightarrow> bool" where
  "wellFormed s = (ready s \<and> (needToInitializeGraph s \<or> gl s \<noteq> None))"

text \<open>
  The invariant of a log when every WASM step that is tried completes: nothing loaded
  while \<open>needToInitializeWasm\<close> is set, and afterwards each load done once.
\<close>

definition loadsInv :: "machine \<Rightarrow> bool" where
  "loadsInv m =
     (if needToInitializeWasm (fst m)
      then scriptLoads (snd m) = 0 \<and> apiFnCalls (snd m) = 0
           \<and> solutionWasmConstructions (snd m) = 0 \<and> graphLoads (snd m) = 0
      else handlesSet (fst m) \<and> scriptLoads (snd m) = length (configFiles (config (fst m)))
           \<and> apiFnCalls (snd m) = 1 \<and> solutionWasmConstructions (snd m) = 1
           \<and> graphLoads (snd m) = 1)"

text \<open>The parts of the object that no method writes, as the constructor set them.\<close>

definition builtFrom :: "SolutionConfig \<Rightarrow> string \<Rightarrow> Solution \<Rightarrow> bool" where
  "builtFrom cfg path s =
     (config s = cfg \<and> locateFile s = locateFile (new_Solution cfg path) \<and> packagePath s = path)"

text \<open>
  \<open>wasmStepCompletes cfg path b\<close>: on the page \<open>b\<close>, the WASM step of a solution built from
  \<open>cfg\<close> at \<open>path\<close> runs to its last line. \<open>loadSucceeds\<close> asks it of the page of every
  call that runs \<open>initialize\<close>.
\<close>

definition wasmStepCompletes :: "SolutionConfig \<Rightarrow> string \<Rightarrow> browser \<Rightarrow> bool" where
  "wasmStepCompletes cfg path b = (fst (tryToInitializeWasm b (new_Solution cfg path, [])) = Resolved)"

fun loadSucceeds :: "SolutionConfig \<Rightarrow> string \<Rightarrow> call \<Rightarrow> bool" where
  "loadSucceeds cfg path (Initialize b) = wasmStepCompletes cfg path b"
| "loadSucceeds cfg path (ProcessFrame b n md i) = wasmStepCompletes cfg path b"
| "loadSucceeds cfg path (SetOptions opts) = True"
| "loadSucceeds cfg path Close = True"

section \<open>Example inputs\<close>

text \<open>
  A page on which the WASM script defines the module factory, the factory resolves, every
  fetch is answered without a body and WebGL2 is offered; the same page a moment later; a
  page without WebGL2; a page whose fetches fail; and a newly constructed pose solution
  served from the root path, alone and inside its \<open>PoseSolution\<close> wrapper, with an empty
  log.
\<close>

definition wasmScript :: "string \<Rightarrow> bool" where
  "wasmScript u = (u = ''/pose_tracking_solution_wasm_bin.js'')"

definition noBody :: "string \<Rightarrow> fetched" where
  "noBody u = NoBody"

definition noNetwork :: "string \<Rightarrow> fetched" where
  "noNetwork u = FetchRejects"

definition page :: browser where
  "page = \<lparr>fetch = noBody, definesApiFn = wasmScript, apiFnResolves = True,
            webgl2 = True, now = 0\<rparr>"

definition pageLater :: browser where
  "pageLater = \<lparr>fetch = noBody, definesApiFn = wasmScript, apiFnResolves = True,
                 webgl2 = True, now = 1\<rparr>"

definition pageNoWebGL :: browser where
  "pageNoWebGL = \<lparr>fetch = noBody, definesApiFn = wasmScript, apiFnResolves = True,
                   webgl2 = False, now = 0\<rparr>"

definition pageOffline :: browser where
  "pageOffline = \<lparr>fetch = noNetwork, definesApiFn = wasmScript, apiFnResolves = True,
                   webgl2 = True, now = 0\<rparr>"

definition newPose :: machine where
  "newPose = (new_Solution (poseConfig None) ''/'', [])"

definition newPoseSolution :: poseMachine where
  "newPoseSolution = (new_PoseSolution None ''/'', [])"

text \<open>
  Two \<open>initialize()\<close> calls made back to back, then resumed in turn, the older first,
  until both have settled.
\<close>

definition overlappingCalls :: "action list" where
  "overlappingCalls =
     [CallInitialize, CallInitialize,
      Resume page 0, Resume page 1, Resume page 0, Resume page 1,
      Resume page 0, Resume page 1, Resume page 0, Resume page 1,
      Resume page 0, Resume page 1, Resume page 0, Resume page 1,
      Resume page 0, Resume page 0]"

section \<open>Lemmas about single calls\<close>

lemma fst_emit [simp]: "fst (emit es m) = fst m"
  by (simp add: emit_def)

lemma snd_emit [simp]: "snd (emit es m) = snd m @ es"
  by (simp add: emit_def)

lemma tryToInitializeWasm_eq:
  "tryToInitializeWasm b (s, tr)
     = (wasmStepOutcome b s, (wasmStepState b s, tr @ wasmStepEvents b s))"
  by (simp add: tryToInitializeWasm_def wasmStepOutcome_def wasmStepState_def wasmStepEvents_def
      loadGraph_def toArrayBuffer_def graphFetchEvents_def graphBytes_def fetchFails_def
      graphUrl_def scriptUrls_def configFiles_def Let_def emit_def
      split: option.splits fetched.splits)

lemma attachListener_eq:
  "wasm s \<noteq> None \<Longrightarrow> solutionWasm s \<noteq> None \<Longrightarrow>
   attachListener wants (s, tr) = (Resolved, (s, tr @ attachEvents wants))"
  by (auto simp: attachListener_def attachEvents_def emit_def)

lemma registerListeners_eq:
  "wasm s \<noteq> None \<Longrightarrow> solutionWasm s \<noteq> None \<Longrightarrow>
   registerListeners regs (s, tr) = (Resolved, (s, tr @ concat (map attachEvents regs)))"
  by (induction regs arbitrary: tr) (simp_all add: seq_def attachListener_eq)

lemma applyPendingChanges_eq:
  "wasm s \<noteq> None \<Longrightarrow>
   applyPendingChanges (s, tr) = (Resolved, (s\<lparr>pendingChanges := None\<rparr>, tr @ changeEvents (pendingChanges s)))"
  by (auto simp: applyPendingChanges_def changeEvents_def emit_def split: option.splits)

lemma tryToInitializeGraph_eq:
  "handlesSet s \<Longrightarrow>
   tryToInitializeGraph b (s, tr) = (Resolved, (graphStepState b s, tr @ graphStepEvents b s))"
  by (auto simp: tryToInitializeGraph_def handlesSet_def graphStepState_def graphStepEvents_def
      alertMessage_def registerEvents_def seq_def applyPendingChanges_eq registerListeners_eq
      emit_def split: option.splits)

lemma handlesSet_wasmStepState:
  "ready s \<Longrightarrow> wasmStepOutcome b s = Resolved \<Longrightarrow> handlesSet (wasmStepState b s)"
  by (auto simp: ready_def handlesSet_def wasmStepState_def wasmStepOutcome_def split: if_splits)

lemma initialize_eq:
  "ready s \<Longrightarrow> wasmStepOutcome b s = Resolved \<Longrightarrow>
   initialize b (s, tr) =
     (Resolved, (graphStepState b (wasmStepState b s),
                 tr @ wasmStepEvents b s @ graphStepEvents b (wasmStepState b s)))"
  by (simp add: initialize_def seq_def tryToInitializeWasm_eq tryToInitializeGraph_eq
      handlesSet_wasmStepState)

lemma initialize_rejected:
  "wasmStepOutcome b s = Rejected e \<Longrightarrow>
   initialize b (s, tr) = (Rejected e, (wasmStepState b s, tr @ wasmStepEvents b s))"
  by (simp add: initialize_def seq_def tryToInitializeWasm_eq)

lemma ready_new: "ready (new_Solution cfg path)"
  by (simp add: ready_def new_Solution_def)

lemma processFrame_eq:
  "ready s \<Longrightarrow> wasmStepOutcome b s = Resolved \<Longrightarrow>
   processFrame b n md i (s, tr) =
     (let s' = graphStepState b (wasmStepState b s);
          tr' = tr @ wasmStepEvents b s @ graphStepEvents b (wasmStepState b s)
                @ [BindTextureToCanvas]
      in if gl s' = None then (Rejected TypeError, (s', tr'))
         else (Resolved, (s', tr' @ [TexImage2D (video i),
                 WasmProcessFrame n \<lparr> width = videoWidth (video i), height = videoHeight (video i),
                                       timestampMs = now b \<rparr>])))"
  using handlesSet_wasmStepState [of s b]
  by (auto simp: processFrame_def seq_def initialize_eq handlesSet_def graphStepState_def
      emit_def Let_def split: option.splits)

lemma processFrame_rejected:
  "wasmStepOutcome b s = Rejected e \<Longrightarrow>
   processFrame b n md i (s, tr) = (Rejected e, (wasmStepState b s, tr @ wasmStepEvents b s))"
  by (simp add: processFrame_def seq_def initialize_rejected)

lemma counts_append:
  "scriptLoads (xs @ ys) = scriptLoads xs + scriptLoads ys"
  "apiFnCalls (xs @ ys) = apiFnCalls xs + apiFnCalls ys"
  "solutionWasmConstructions (xs @ ys) = solutionWasmConstructions xs + solutionWasmConstructions ys"
  "graphLoads (xs @ ys) = graphLoads xs + graphLoads ys"
  by (simp_all add: scriptLoads_def apiFnCalls_def solutionWasmConstructions_def graphLoads_def)

lemma filter_LoadScript_map:
  "filter isLoadScript (map (\<lambda>x. LoadScript (f x)) xs) = map (\<lambda>x. LoadScript (f x)) xs"
  by (induction xs) simp_all

lemma length_scriptUrls: "length (scriptUrls s) = length (configFiles (config s))"
  by (simp add: scriptUrls_def)

lemma filter_LoadScript: "filter isLoadScript (map LoadScript us) = map LoadScript us"
  by (induction us) simp_all

lemma counts_wasmStep:
  assumes "needToInitializeWasm s" and "wasmStepOutcome b s = Resolved"
  shows "scriptLoads (wasmStepEvents b s) = length (configFiles (config s))"
    and "apiFnCalls (wasmStepEvents b s) = 1"
    and "solutionWasmConstructions (wasmStepEvents b s) = 1"
    and "graphLoads (wasmStepEvents b s) = 1"
  using assms
  by (auto simp: wasmStepEvents_def wasmStepOutcome_def scriptLoads_def apiFnCalls_def
      solutionWasmConstructions_def graphLoads_def graphFetchEvents_def filter_LoadScript
      length_scriptUrls filter_empty_conv split: if_splits)

lemma counts_wasmStep_skip: "\<not> needToInitializeWasm s \<Longrightarrow> wasmStepEvents b s = []"
  by (simp add: wasmStepEvents_def)

lemma counts_registerEvents:
  "filter isLoadScript (registerEvents s) = []"
  "filter (\<lambda>e. e = ApiFn) (registerEvents s) = []"
  "filter (\<lambda>e. e = NewSolutionWasm) (registerEvents s) = []"
  "filter isWasmLoadGraph (registerEvents s) = []"
  by (auto simp: registerEvents_def attachEvents_def filter_empty_conv split: option.splits)

lemma counts_changeEvents:
  "filter isLoadScript (changeEvents pc) = []"
  "filter (\<lambda>e. e = ApiFn) (changeEvents pc) = []"
  "filter (\<lambda>e. e = NewSolutionWasm) (changeEvents pc) = []"
  "filter isWasmLoadGraph (changeEvents pc) = []"
  by (auto simp: changeEvents_def filter_empty_conv split: option.splits)

lemma counts_graphStep:
  "scriptLoads (graphStepEvents b s) = 0"
  "apiFnCalls (graphStepEvents b s) = 0"
  "solutionWasmConstructions (graphStepEvents b s) = 0"
  "graphLoads (graphStepEvents b s) = 0"
  by (simp_all add: graphStepEvents_def scriptLoads_def apiFnCalls_def solutionWasmConstructions_def
      graphLoads_def counts_registerEvents counts_changeEvents)

lemma loadsInv_ready: "loadsInv m \<Longrightarrow> ready (fst m)"
  by (auto simp: loadsInv_def ready_def split: if_splits)

lemma config_steps [simp]:
  "config (wasmStepState b s) = config s"
  "config (graphStepState b s) = config s"
  "config (setOptions opts s) = config s"
  by (simp_all add: wasmStepState_def graphStepState_def setOptions_def Let_def split: option.splits)

lemma locateFile_steps [simp]:
  "locateFile (wasmStepState b s) = locateFile s"
  "locateFile (graphStepState b s) = locateFile s"
  "locateFile (setOptions opts s) = locateFile s"
  by (simp_all add: wasmStepState_def graphStepState_def setOptions_def Let_def split: option.splits)

lemma packagePath_steps [simp]:
  "packagePath (wasmStepState b s) = packagePath s"
  "packagePath (graphStepState b s) = packagePath s"
  "packagePath (setOptions opts s) = packagePath s"
  by (simp_all add: wasmStepState_def graphStepState_def setOptions_def Let_def split: option.splits)

lemma builtFrom_steps [simp]:
  "builtFrom cfg path (wasmStepState b s) = builtFrom cfg path s"
  "builtFrom cfg path (graphStepState b s) = builtFrom cfg path s"
  "builtFrom cfg path (setOptions opts s) = builtFrom cfg path s"
  by (simp_all add: builtFrom_def)

lemma need_steps [simp]:
  "wasmStepOutcome b s = Resolved \<Longrightarrow> needToInitializeWasm (wasmStepState b s) = False"
  "wasmStepOutcome b s = Rejected e \<Longrightarrow> needToInitializeWasm (wasmStepState b s) = True"
  "needToInitializeWasm (graphStepState b' s) = needToInitializeWasm s"
  "needToInitializeWasm (setOptions opts s) = needToInitializeWasm s"
  by (auto simp: wasmStepState_def wasmStepOutcome_def graphStepState_def setOptions_def Let_def
      split: option.splits if_splits)

lemma handlesSet_steps [simp]:
  "handlesSet (graphStepState b s) = handlesSet s"
  "handlesSet (setOptions opts s) = handlesSet s"
  by (simp_all add: handlesSet_def graphStepState_def setOptions_def Let_def split: option.splits)

lemma wellFormed_wasmStep: "wellFormed s \<Longrightarrow> wellFormed (wasmStepState b s)"
  by (auto simp: wellFormed_def ready_def handlesSet_def wasmStepState_def)

lemma wellFormed_graphStep: "wellFormed s \<Longrightarrow> wellFormed (graphStepState b s)"
  by (auto simp: wellFormed_def ready_def handlesSet_def graphStepState_def)

lemma wellFormed_setOptions: "wellFormed s \<Longrightarrow> wellFormed (setOptions opts s)"
  by (auto simp: wellFormed_def ready_def handlesSet_def setOptions_def Let_def split: option.splits)

lemma wellFormed_ready: "wellFormed s \<Longrightarrow> ready s"
  by (simp add: wellFormed_def)

lemma gl_after_graphStep:
  "wellFormed s \<Longrightarrow> webgl2 b \<Longrightarrow> gl (graphStepState b s) \<noteq> None"
  by (auto simp: wellFormed_def graphStepState_def)

text \<open>Every call keeps the object well formed and leaves its fixed parts alone.\<close>

lemma exec_wellFormed:
  assumes "wellFormed (fst m)"
  shows "wellFormed (fst (snd (exec c m)))
         \<and> builtFrom cfg path (fst (snd (exec c m))) = builtFrom cfg path (fst m)"
proof -
  obtain s tr where m: "m = (s, tr)" by (cases m)
  have w: "wellFormed s" using assms m by simp
  note r = wellFormed_ready [OF w]
  show ?thesis
  proof (cases c)
    case (Initialize b)
    show ?thesis
    proof (cases "wasmStepOutcome b s")
      case Resolved
      then show ?thesis
        using Initialize m w by (simp add: initialize_eq [OF r] wellFormed_wasmStep wellFormed_graphStep)
    next
      case (Rejected e)
      then show ?thesis
        using Initialize m w by (simp add: initialize_rejected wellFormed_wasmStep)
    qed
  next
    case (ProcessFrame b n md i)
    show ?thesis
    proof (cases "wasmStepOutcome b s")
      case Resolved
      then show ?thesis
        using ProcessFrame m w
        by (simp add: processFrame_eq [OF r] Let_def wellFormed_wasmStep wellFormed_graphStep)
    next
      case (Rejected e)
      then show ?thesis
        using ProcessFrame m w by (simp add: processFrame_rejected wellFormed_wasmStep)
    qed
  next
    case (SetOptions opts)
    then show ?thesis using m w by (simp add: wellFormed_setOptions)
  next
    case Close
    then show ?thesis using m w by (auto simp: close_def emit_def split: option.splits)
  qed
qed

text \<open>Whether the WASM step completes depends on the flag and the fixed parts only.\<close>

lemma wasmStepOutcome_builtFrom:
  assumes "builtFrom cfg path s" and "wasmStepCompletes cfg path b"
  shows "wasmStepOutcome b s = Resolved"
proof -
  have n: "needToInitializeWasm (new_Solution cfg path)" by (simp add: new_Solution_def)
  have c: "config (new_Solution cfg path) = cfg" "packagePath (new_Solution cfg path) = path"
    by (simp_all add: new_Solution_def)
  have "wasmStepOutcome b (new_Solution cfg path) = Resolved"
    using assms(2) by (simp add: wasmStepCompletes_def tryToInitializeWasm_eq)
  then show ?thesis
    using assms(1) n c
    by (auto simp: wasmStepOutcome_def builtFrom_def scriptUrls_def fetchFails_def graphUrl_def
        split: if_splits)
qed

lemma loadsInv_initStep:
  assumes "loadsInv (s, tr)" and "wasmStepOutcome b s = Resolved"
  shows "loadsInv (graphStepState b (wasmStepState b s),
                   tr @ wasmStepEvents b s @ graphStepEvents b (wasmStepState b s) @ es)
         = (scriptLoads es = 0 \<and> apiFnCalls es = 0 \<and> solutionWasmConstructions es = 0 \<and> graphLoads es = 0)"
proof (cases "needToInitializeWasm s")
  case True
  have "ready s" using assms(1) by (auto simp: loadsInv_def ready_def split: if_splits)
  from handlesSet_wasmStepState [OF this assms(2)] True assms show ?thesis
    by (auto simp: loadsInv_def counts_append counts_wasmStep counts_graphStep)
next
  case False
  then show ?thesis
    using assms
    by (auto simp: loadsInv_def counts_append counts_wasmStep_skip counts_graphStep wasmStepState_def)
qed

lemma exec_loadsInv:
  assumes "loadsInv m" and "builtFrom cfg path (fst m)" and "loadSucceeds cfg path c"
  shows "loadsInv (snd (exec c m))
         \<and> needToInitializeWasm (fst (snd (exec c m)))
             = (needToInitializeWasm (fst m) \<and> \<not> callsInitialize c)"
proof -
  obtain s tr where m: "m = (s, tr)" by (cases m)
  have r: "ready s" using assms(1) loadsInv_ready m by fastforce
  have bf: "builtFrom cfg path s" using assms(2) m by simp
  show ?thesis
  proof (cases c)
    case (Initialize b)
    with assms(3) bf have o: "wasmStepOutcome b s = Resolved"
      by (simp add: wasmStepOutcome_builtFrom)
    show ?thesis
      using Initialize loadsInv_initStep [of s tr b "[]"] assms(1) m o
      by (simp add: initialize_eq [OF r o] scriptLoads_def apiFnCalls_def
          solutionWasmConstructions_def graphLoads_def)
  next
    case (ProcessFrame b n md i)
    with assms(3) bf have o: "wasmStepOutcome b s = Resolved"
      by (simp add: wasmStepOutcome_builtFrom)
    show ?thesis
      using ProcessFrame loadsInv_initStep [of s tr b "[BindTextureToCanvas]"]
        loadsInv_initStep [of s tr b "[BindTextureToCanvas, TexImage2D (video i),
          WasmProcessFrame n \<lparr> width = videoWidth (video i), height = videoHeight (video i),
                                timestampMs = now b \<rparr>]"] assms(1) m o
      by (simp add: processFrame_eq [OF r o] Let_def scriptLoads_def apiFnCalls_def
          solutionWasmConstructions_def graphLoads_def)
  next
    case (SetOptions opts)
    then show ?thesis using assms(1) unfolding m by (auto simp: loadsInv_def split: if_splits)
  next
    case Close
    then show ?thesis using assms(1) unfolding m
      by (auto simp: close_def loadsInv_def counts_append scriptLoads_def apiFnCalls_def
          solutionWasmConstructions_def graphLoads_def emit_def split: option.splits)
  qed
qed

text \<open>Started and resumed to its end without interruption, a call is \<open>initialize\<close>.\<close>

lemma settle_initialize:
  "settle 7 b (startInitialize m) = (Settled (fst (initialize b m)), snd (initialize b m))"
  by (cases "tryToInitializeGraph b m")
     (auto simp: numeral_eq_Suc startInitialize_def initialize_def seq_def tryToInitializeWasm_def
      loadGraph_def toArrayBuffer_def emit_def Let_def
      split: option.splits prod.splits outcome.splits fetched.splits)

section \<open>Lemmas about sequences of calls\<close>


lemma run_wellFormed:
  "wellFormed (fst m) \<Longrightarrow>
   wellFormed (fst (run cs m)) \<and> builtFrom cfg path (fst (run cs m)) = builtFrom cfg path (fst m)"
proof (induction cs arbitrary: m)
  case Nil
  then show ?case by simp
next
  case (Cons c cs)
  from exec_wellFormed [OF Cons.prems, of c cfg path] Cons.IH [of "snd (exec c m)"]
  show ?case by simp
qed

lemma wellFormed_new: "wellFormed (new_Solution cfg path)"
  by (simp add: wellFormed_def ready_def new_Solution_def)

lemma builtFrom_new: "builtFrom cfg path (new_Solution cfg path)"
  by (simp add: builtFrom_def new_Solution_def)

lemma config_new [simp]: "config (new_Solution cfg path) = cfg"
  by (simp add: new_Solution_def)

lemma reachable:
  "wellFormed (fst (run cs (new_Solution cfg path, [])))"
  "builtFrom cfg path (fst (run cs (new_Solution cfg path, [])))"
  "config (fst (run cs (new_Solution cfg path, []))) = cfg"
proof -
  from run_wellFormed [of "(new_Solution cfg path, [])" cs cfg path]
  show 1: "wellFormed (fst (run cs (new_Solution cfg path, [])))"
    and 2: "builtFrom cfg path (fst (run cs (new_Solution cfg path, [])))"
    by (simp_all add: wellFormed_new builtFrom_new)
  from 2 show "config (fst (run cs (new_Solution cfg path, []))) = cfg"
    by (simp add: builtFrom_def)
qed

lemma loadsInv_new: "loadsInv (new_Solution cfg path, [])"
  by (simp add: loadsInv_def new_Solution_def scriptLoads_def apiFnCalls_def
      solutionWasmConstructions_def graphLoads_def)

lemma run_loadsInv:
  "loadsInv m \<Longrightarrow> wellFormed (fst m) \<Longrightarrow> builtFrom cfg path (fst m) \<Longrightarrow>
   list_all (loadSucceeds cfg path) cs \<Longrightarrow>
   loadsInv (run cs m)
   \<and> needToInitializeWasm (fst (run cs m))
       = (needToInitializeWasm (fst m) \<and> \<not> list_ex callsInitialize cs)"
proof (induction cs arbitrary: m)
  case Nil
  then show ?case by simp
next
  case (Cons c cs)
  from Cons.prems have l: "loadSucceeds cfg path c" and ls: "list_all (loadSucceeds cfg path) cs"
    by simp_all
  note e = exec_loadsInv [OF Cons.prems(1) Cons.prems(3) l]
  note w = exec_wellFormed [OF Cons.prems(2), of c cfg path]
  from Cons.IH [of "snd (exec c m)"] e w Cons.prems(3) ls
  show ?case by auto
qed

text \<open>
  For calls that each settle before the next is made and whose WASM steps complete, the
  invariant gives the bound: every load at most once.
\<close>

lemma settled_calls_load_at_most_once:
  assumes "list_all (loadSucceeds cfg path) cs"
  shows "scriptLoads (snd (run cs (new_Solution cfg path, []))) \<le> length (configFiles cfg)
   \<and> apiFnCalls (snd (run cs (new_Solution cfg path, []))) \<le> 1
   \<and> solutionWasmConstructions (snd (run cs (new_Solution cfg path, []))) \<le> 1
   \<and> graphLoads (snd (run cs (new_Solution cfg path, []))) \<le> 1"
proof -
  have w: "wellFormed (fst (new_Solution cfg path, []::event list))"
    and bf: "builtFrom cfg path (fst (new_Solution cfg path, []::event list))"
    by (simp_all add: wellFormed_new builtFrom_new)
  from run_loadsInv [OF loadsInv_new w bf assms] reachable(3) [of cs cfg path]
  show ?thesis
    by (auto simp: loadsInv_def split: if_splits)
qed

lemma calls_append:
  "changeOptionsCalls (xs @ ys) = changeOptionsCalls xs @ changeOptionsCalls ys"
  "processFrameCalls (xs @ ys) = processFrameCalls xs @ processFrameCalls ys"
  by (simp_all add: changeOptionsCalls_def processFrameCalls_def)

lemma calls_Nil [simp]:
  "changeOptionsCalls [] = []"
  "processFrameCalls [] = []"
  by (simp_all add: changeOptionsCalls_def processFrameCalls_def)

lemma calls_Cons [simp]:
  "changeOptionsCalls (e # es) = changeOptionsArg e @ changeOptionsCalls es"
  "processFrameCalls (e # es) = processFrameArg e @ processFrameCalls es"
  by (simp_all add: changeOptionsCalls_def processFrameCalls_def)

lemma calls_wasmStep:
  "changeOptionsCalls (wasmStepEvents b s) = []"
  "processFrameCalls (wasmStepEvents b s) = []"
  by (auto simp: changeOptionsCalls_def processFrameCalls_def wasmStepEvents_def graphFetchEvents_def)

lemma calls_registerEvents:
  "changeOptionsCalls (registerEvents s) = []"
  "processFrameCalls (registerEvents s) = []"
  by (auto simp: changeOptionsCalls_def processFrameCalls_def registerEvents_def attachEvents_def
      split: option.splits)

lemma calls_changeEvents:
  "changeOptionsCalls (changeEvents pc) = (case pc of None \<Rightarrow> [] | Some cs \<Rightarrow> [cs])"
  "processFrameCalls (changeEvents pc) = []"
  by (auto simp: changeOptionsCalls_def processFrameCalls_def changeEvents_def split: option.splits)

lemma calls_graphStep:
  "processFrameCalls (graphStepEvents b s) = []"
  by (simp add: graphStepEvents_def calls_append calls_registerEvents calls_changeEvents)

text \<open>
  Two runs in which the WASM step does not complete. Without scripts in the config the
  call of the factory throws, nothing is loaded and the flag stays set. With a fetch of
  the graph that fails the call is rejected after the scripts were loaded and
  \<open>SolutionWasm\<close> constructed, the flag stays set, and the next call does both again.
\<close>

lemma no_files_throws:
  "fst (initialize page (new_Solution ((poseConfig None)\<lparr>files := None\<rparr>) ''/'', []))
     = Rejected TypeError
   \<and> needToInitializeWasm (fst (snd (initialize page
        (new_Solution ((poseConfig None)\<lparr>files := None\<rparr>) ''/'', []))))
   \<and> snd (snd (initialize page (new_Solution ((poseConfig None)\<lparr>files := None\<rparr>) ''/'', [])))
     = [SetWindow API_EXPORT_NAME, SetWindow PACK_EXPORT_NAME,
        GetWindow API_EXPORT_NAME, GetWindow PACK_EXPORT_NAME]"
  by (simp add: initialize_def seq_def tryToInitializeWasm_eq page_def new_Solution_def
      poseConfig_def wasmStepOutcome_def wasmStepState_def wasmStepEvents_def scriptUrls_def
      configFiles_def)

lemma failed_fetch_repeats_load:
  "fst (initialize pageOffline newPose) = Rejected PageRejection
   \<and> needToInitializeWasm (fst (snd (initialize pageOffline newPose)))
   \<and> scriptLoads (snd (run [Initialize pageOffline, Initialize page] newPose)) = 4
   \<and> solutionWasmConstructions (snd (run [Initialize pageOffline, Initialize page] newPose)) = 2
   \<and> graphLoads (snd (run [Initialize pageOffline, Initialize page] newPose)) = 1"
  by (simp add: initialize_def seq_def tryToInitializeWasm_eq tryToInitializeGraph_eq
      newPose_def page_def pageOffline_def wasmScript_def noBody_def noNetwork_def
      handlesSet_def new_Solution_def poseConfig_def wasmStepOutcome_def wasmStepState_def
      wasmStepEvents_def graphStepState_def graphStepEvents_def graphFetchEvents_def
      graphBytes_def fetchFails_def graphUrl_def scriptUrls_def registerEvents_def
      attachEvents_def changeEvents_def configFiles_def defaultLocateFile_def
      scriptLoads_def solutionWasmConstructions_def graphLoads_def)

section \<open>The claims\<close>

text \<open>
  C1 asks that across any sequence of \<open>initialize()\<close> calls, in every order, the WASM
  load and the graph load each happen at most once; the comment on
  \<open>tryToInitializeWasm\<close> promises the same. The code does not keep this when calls
  overlap. Two calls made one after the other without waiting for the first to settle both
  find \<open>needToInitializeWasm\<close> set, since the flag is cleared only after the last
  \<open>yield\<close> of \<open>tryToInitializeWasm\<close>: on a new pose solution, whose config lists two
  scripts, four script loads have been started when the second call returns, and when
  both calls have settled the API function has been called twice, \<open>SolutionWasm\<close>
  constructed twice and the graph loaded twice.
\<close>

theorem overlapping_initialize_loads_twice:
  "scriptLoads (snd (fst (acts [CallInitialize, CallInitialize] (newPose, [])))) = 4
   \<and> length (configFiles (poseConfig None)) = 2
   \<and> snd (acts overlappingCalls (newPose, [])) = []
   \<and> apiFnCalls (snd (fst (acts overlappingCalls (newPose, [])))) = 2
   \<and> solutionWasmConstructions (snd (fst (acts overlappingCalls (newPose, [])))) = 2
   \<and> graphLoads (snd (fst (acts overlappingCalls (newPose, [])))) = 2"
  by (simp add: overlappingCalls_def newPose_def page_def wasmScript_def noBody_def
      startInitialize_def new_Solution_def poseConfig_def configFiles_def emit_def
      scriptLoads_def apiFnCalls_def solutionWasmConstructions_def graphLoads_def
      defaultLocateFile_def tryToInitializeGraph_def seq_def applyPendingChanges_def
      attachListener_def Let_def nth_Cons')






text \<open>
  C4, as stated, says that a failed WebGL2 context is handled by logging to the console.
  On a new pose solution whose canvas yields no context, \<open>initialize()\<close> resolves, and its
  log holds no console call and exactly one \<open>alert\<close>.
\<close>

theorem webgl_failure_console_counterexample:
  "fst (initialize pageNoWebGL newPose) = Resolved
   \<and> filter isConsoleLog (snd (snd (initialize pageNoWebGL newPose))) = []
   \<and> filter isAlert (snd (snd (initialize pageNoWebGL newPose)))
      = [Alert ''Failed to create WebGL canvas context when passing video frame.'']"
  by (simp add: newPose_def page_def pageLater_def pageNoWebGL_def wasmScript_def noBody_def
      tryToInitializeWasm_eq initialize_eq ready_def handlesSet_def new_Solution_def poseConfig_def
      wasmStepOutcome_def wasmStepState_def wasmStepEvents_def graphStepState_def
      graphStepEvents_def graphFetchEvents_def graphBytes_def fetchFails_def graphUrl_def
      scriptUrls_def registerEvents_def attachEvents_def changeEvents_def alertMessage_def
      setOptions_def configFiles_def defaultLocateFile_def NUMBER_def
      GraphOptionXRef.extend_def GraphOptionChangeRequest.fields_def)

text \<open>
  C4, amended. If \<open>getContext('webgl2')\<close> returns null while the graph is to be
  initialised, \<open>initialize()\<close> does not throw: after the WASM step, the graph step binds the
  texture, asks for the context, calls \<open>alert\<close> with the failure message and returns early,
  leaving the object as the WASM step left it, with \<open>needToInitializeGraph\<close> still set.
\<close>

theorem webgl_failure_alert:
  assumes "\<not> webgl2 b" and "needToInitializeGraph (fst (run cs (new_Solution cfg path, [])))"
    and "fst (tryToInitializeWasm b (run cs (new_Solution cfg path, []))) = Resolved"
  shows "let m = run cs (new_Solution cfg path, []); w = snd (tryToInitializeWasm b m);
             r = initialize b m
         in fst r = Resolved
            \<and> snd r = (fst w, snd w @ [BindTextureToCanvas, GetContext ''webgl2'',
                  Alert ''Failed to create WebGL canvas context when passing video frame.''])
            \<and> needToInitializeGraph (fst (snd r))"
proof -
  obtain s tr where m: "run cs (new_Solution cfg path, []) = (s, tr)"
    by (cases "run cs (new_Solution cfg path, [])")
  have r: "ready s" using reachable(1) [of cs cfg path] wellFormed_ready m by fastforce
  have o: "wasmStepOutcome b s = Resolved"
    using assms(3) unfolding m by (simp add: tryToInitializeWasm_eq)
  have ng: "needToInitializeGraph s" using assms(2) m by simp
  have ng': "needToInitializeGraph (wasmStepState b s)" using ng by (simp add: wasmStepState_def)
  show ?thesis
    unfolding m using assms(1) ng'
    by (simp add: initialize_eq [OF r o] tryToInitializeWasm_eq graphStepState_def
        graphStepEvents_def alertMessage_def)
qed

theorem webgl_failure_alert_witness:
  "\<not> webgl2 pageNoWebGL
   \<and> needToInitializeGraph (fst (run [] (new_Solution (poseConfig None) ''/'', [])))
   \<and> fst (tryToInitializeWasm pageNoWebGL (run [] (new_Solution (poseConfig None) ''/'', [])))
       = Resolved
   \<and> (let m = run [] (new_Solution (poseConfig None) ''/'', []);
           w = snd (tryToInitializeWasm pageNoWebGL m);
           r = initialize pageNoWebGL m
       in fst r = Resolved
          \<and> snd r = (fst w, snd w @ [BindTextureToCanvas, GetContext ''webgl2'',
                Alert ''Failed to create WebGL canvas context when passing video frame.''])
          \<and> needToInitializeGraph (fst (snd r)))"
proof -
  have h1: "\<not> webgl2 pageNoWebGL"
    by (simp add: pageNoWebGL_def)
  have h2: "needToInitializeGraph (fst (run [] (new_Solution (poseConfig None) ''/'', [])))"
    by (simp add: new_Solution_def)
  have h3: "fst (tryToInitializeWasm pageNoWebGL
               (run [] (new_Solution (poseConfig None) ''/'', []))) = Resolved"
    by (simp add: newPose_def page_def pageLater_def pageNoWebGL_def wasmScript_def noBody_def
      tryToInitializeWasm_eq initialize_eq ready_def handlesSet_def new_Solution_def poseConfig_def
      wasmStepOutcome_def wasmStepState_def wasmStepEvents_def graphStepState_def
      graphStepEvents_def graphFetchEvents_def graphBytes_def fetchFails_def graphUrl_def
      scriptUrls_def registerEvents_def attachEvents_def changeEvents_def alertMessage_def
      setOptions_def configFiles_def defaultLocateFile_def NUMBER_def
      GraphOptionXRef.extend_def GraphOptionChangeRequest.fields_def)
  show ?thesis
    by (rule conjI [OF h1 conjI [OF h2 conjI [OF h3 webgl_failure_alert [OF h1 h2 h3]]]])
qed

text \<open>
  C5. The listener that \<open>attachListener(['pose_landmarks','pose_rect'], cb)\<close> hands to the
  engine, called with a result vector of length 2, calls \<open>cb\<close> exactly once, with the object
  that maps \<open>pose_landmarks\<close> to the value extracted from element 0 and \<open>pose_rect\<close> to the
  value extracted from element 1.
\<close>

theorem pose_listener_results:
  assumes "length vs = 2"
  shows "onResults [''pose_landmarks'', ''pose_rect''] [''pose_landmarks'', ''pose_rect''] vs
         = Inr [[''pose_landmarks'' \<mapsto> extractWasmResult (vs ! 0),
                 ''pose_rect'' \<mapsto> extractWasmResult (vs ! 1)]]"
proof -
  from assms obtain a b where vs: "vs = [a, b]"
    by (cases vs; cases "tl vs") auto
  have "[0 ..< length [''pose_landmarks'', ''pose_rect'']] = [0, Suc 0]"
    by (simp add: upt_rec)
  then show ?thesis
    by (simp add: onResults_def vs vectorGet_def wantsKey_def)
qed

theorem pose_listener_results_witness:
  "length [\<lparr>isNumber = False, getNumber = 0, isRect = False, getRect = (0::nat),
            isLandmarks = True, getLandmarks = [1::nat, 2]\<rparr>,
          \<lparr>isNumber = False, getNumber = 0, isRect = True, getRect = 7,
            isLandmarks = False, getLandmarks = []\<rparr>] = 2
   \<and> onResults [''pose_landmarks'', ''pose_rect''] [''pose_landmarks'', ''pose_rect'']
         [\<lparr>isNumber = False, getNumber = 0, isRect = False, getRect = (0::nat),
            isLandmarks = True, getLandmarks = [1::nat, 2]\<rparr>,
          \<lparr>isNumber = False, getNumber = 0, isRect = True, getRect = 7,
            isLandmarks = False, getLandmarks = []\<rparr>]
       = Inr [[''pose_landmarks'' \<mapsto> RLandmarks [1, 2], ''pose_rect'' \<mapsto> RRect 7]]"
  using pose_listener_results [of
         "[\<lparr>isNumber = False, getNumber = 0, isRect = False, getRect = (0::nat),
            isLandmarks = True, getLandmarks = [1::nat, 2]\<rparr>,
          \<lparr>isNumber = False, getNumber = 0, isRect = True, getRect = 7,
            isLandmarks = False, getLandmarks = []\<rparr>]"]
  by (simp add: extractWasmResult_def)

text \<open>
  C6. For every inputs object whose \<open>video\<close> field is falsy or missing,
  \<open>PoseSolution.send(inputs)\<close> resolves and leaves both the object and the log of external
  calls as they were: no initialisation, no \<open>processFrame\<close>, no WASM call.
\<close>

theorem send_without_video:
  "inputs_video inputs = Falsy f \<Longrightarrow> send b t0 inputs p = (Resolved, p)"
  by (simp add: send_def)

theorem send_without_video_witness:
  "inputs_video \<lparr>inputs_video = Falsy FUndefined\<rparr> = Falsy FUndefined
   \<and> send page 0 \<lparr>inputs_video = Falsy FUndefined\<rparr> newPoseSolution
       = (Resolved, newPoseSolution)"
proof -
  have h: "inputs_video \<lparr>inputs_video = Falsy FUndefined\<rparr> = Falsy FUndefined"
    by simp
  show ?thesis
    by (rule conjI [OF h send_without_video [OF h]])
qed

text \<open>
  C7. If no key of the options object maps, through the static option config, to a graph
  parameter reference, \<open>setOptions(options)\<close> returns normally and changes nothing: no
  change request is queued, \<open>pendingChanges\<close> and \<open>needToInitializeGraph\<close> keep their
  values, and the log of external calls gets no entry.
\<close>

theorem setOptions_unrecognized:
  assumes "list_all (\<lambda>kv. \<not> mapsToGraphParameter (config (fst m)) (fst kv)) opts"
  shows "exec (SetOptions opts) m = (Resolved, m)"
proof -
  have "collectChanges oc opts = []"
    if "options (config (fst m)) = Some oc" for oc
    using assms that
    by (induction opts) (auto simp: mapsToGraphParameter_def split: option.splits)
  then show ?thesis
    by (simp add: setOptions_def split: option.splits)
qed

theorem setOptions_unrecognized_witness:
  "list_all (\<lambda>kv. \<not> mapsToGraphParameter (config (fst newPose)) (fst kv))
     [(''selfieMode'', JBool True), (''threshold'', JNumber 1)]
   \<and> exec (SetOptions [(''selfieMode'', JBool True), (''threshold'', JNumber 1)]) newPose
       = (Resolved, newPose)"
proof -
  have h: "list_all (\<lambda>kv. \<not> mapsToGraphParameter (config (fst newPose)) (fst kv))
     [(''selfieMode'', JBool True), (''threshold'', JNumber 1)]"
    by (simp add: newPose_def mapsToGraphParameter_def poseConfig_def)
  show ?thesis
    by (rule conjI [OF h setOptions_unrecognized [OF h]])
qed

text \<open>
  C8. For every argument that is not a non-empty string matching
  \<open>/^[a-zA-Z_$][a-zA-Z0-9._$]*$/\<close>, \<open>goog.module\<close> throws
  \<open>Error('Invalid module identifier')\<close> and the loader state is what it was.
\<close>

theorem goog_module_invalid:
  "\<not> validModuleIdentifier arg \<Longrightarrow>
   goog_module arg g = (Rejected (Error ''Invalid module identifier''), g)"
  by (cases arg) (auto simp: validModuleIdentifier_def goog_module_def search_def)

theorem goog_module_invalid_witness:
  "\<not> validModuleIdentifier (JString ''a/b'')
   \<and> goog_module (JString ''a/b'')
        \<lparr>moduleLoaderState = Some \<lparr>moduleName = None, declareLegacyNamespace = False,
                                    moduleType = Some GOOG\<rparr>,
          loadedModules = (\<lambda>n. False), implicitNamespaces = Map.empty,
          objectByName = (\<lambda>n. False)\<rparr>
      = (Rejected (Error ''Invalid module identifier''),
         \<lparr>moduleLoaderState = Some \<lparr>moduleName = None, declareLegacyNamespace = False,
                                    moduleType = Some GOOG\<rparr>,
          loadedModules = (\<lambda>n. False), implicitNamespaces = Map.empty,
          objectByName = (\<lambda>n. False)\<rparr>)"
proof -
  have h: "\<not> validModuleIdentifier (JString ''a/b'')"
    by (simp add: validModuleIdentifier_def identStart_def identPart_def isLetter_def isDigit_def)
  show ?thesis
    by (rule conjI [OF h goog_module_invalid [OF h]])
qed

text \<open>
  C9. \<open>Solution.processFrame\<close> never reads its \<open>metadata\<close> parameter: two calls that differ
  only in it have the same outcome, object and log. When the WASM step of its
  \<open>initialize()\<close> completes and the canvas gives a WebGL2 context, the call resolves and
  makes exactly one \<open>processFrame\<close> call on the engine, carrying the stream name and the
  metadata recomputed from \<open>inputs.video\<close> and \<open>performance.now()\<close>. In general it makes
  that one call when it resolves and none when it rejects. So the metadata that
  \<open>PoseSolution.send\<close> builds, with a timestamp of its own, has no effect.
\<close>

theorem processFrame_ignores_metadata:
  "let m = run cs (new_Solution cfg path, []); r = processFrame b n md i m
   in r = processFrame b n md' i m
      \<and> ((fst (tryToInitializeWasm b m) = Resolved \<and> webgl2 b) \<longrightarrow>
            fst r = Resolved
            \<and> processFrameCalls (newEvents m (snd r))
                = [(n, \<lparr> width = videoWidth (video i), height = videoHeight (video i),
                            timestampMs = now b \<rparr>)])
      \<and> processFrameCalls (newEvents m (snd r))
          = (if fst r = Resolved
             then [(n, \<lparr> width = videoWidth (video i), height = videoHeight (video i),
                          timestampMs = now b \<rparr>)]
             else [])
      \<and> send b t0 inputs p = send b t1 inputs p"
proof -
  obtain s tr where m: "run cs (new_Solution cfg path, []) = (s, tr)"
    by (cases "run cs (new_Solution cfg path, [])")
  have wf: "wellFormed s" using reachable(1) [of cs cfg path] m by simp
  note r = wellFormed_ready [OF wf]
  have 1: "processFrame b n md i (s, tr) = processFrame b n md' i (s, tr)"
    by (simp add: processFrame_def)
  have 2: "send b t0 inputs p = send b t1 inputs p"
    by (simp add: send_def processFrame_def split: videoField.splits)
  show ?thesis
  proof (cases "wasmStepOutcome b s")
    case Resolved
    have g: "webgl2 b \<Longrightarrow> gl (graphStepState b (wasmStepState b s)) \<noteq> None"
      by (rule gl_after_graphStep [OF wellFormed_wasmStep [OF wf]])
    show ?thesis
      unfolding m using 1 2 g
      by (auto simp: processFrame_eq [OF r Resolved] Let_def newEvents_def calls_append
          calls_wasmStep calls_graphStep tryToInitializeWasm_eq)
  next
    case (Rejected e)
    then show ?thesis
      unfolding m using 1 2
      by (simp add: processFrame_rejected Let_def newEvents_def calls_wasmStep
          tryToInitializeWasm_eq)
  qed
qed

theorem processFrame_ignores_metadata_witness:
  "fst (tryToInitializeWasm page (run [] (new_Solution (poseConfig None) ''/'', []))) = Resolved
   \<and> webgl2 page
   \<and> (let m = run [] (new_Solution (poseConfig None) ''/'', []);
           r = processFrame page ''input_frames_gpu''
                 \<lparr>width = 1, height = 2, timestampMs = 3\<rparr>
                 \<lparr>video = \<lparr>videoWidth = 640, videoHeight = 480\<rparr>\<rparr> m
       in r = processFrame page ''input_frames_gpu''
                 \<lparr>width = 4, height = 5, timestampMs = 6\<rparr>
                 \<lparr>video = \<lparr>videoWidth = 640, videoHeight = 480\<rparr>\<rparr> m
          \<and> ((fst (tryToInitializeWasm page m) = Resolved \<and> webgl2 page) \<longrightarrow>
                fst r = Resolved
                \<and> processFrameCalls (newEvents m (snd r))
                    = [(''input_frames_gpu'',
                        \<lparr> width = videoWidth (video \<lparr>video = \<lparr>videoWidth = 640, videoHeight = 480\<rparr>\<rparr>),
                           height = videoHeight (video \<lparr>video = \<lparr>videoWidth = 640, videoHeight = 480\<rparr>\<rparr>),
                           timestampMs = now page \<rparr>)])
          \<and> processFrameCalls (newEvents m (snd r))
              = (if fst r = Resolved
                 then [(''input_frames_gpu'',
                        \<lparr> width = videoWidth (video \<lparr>video = \<lparr>videoWidth = 640, videoHeight = 480\<rparr>\<rparr>),
                           height = videoHeight (video \<lparr>video = \<lparr>videoWidth = 640, videoHeight = 480\<rparr>\<rparr>),
                           timestampMs = now page \<rparr>)]
                 else [])
          \<and> send page 7 \<lparr>inputs_video = Video \<lparr>videoWidth = 640, videoHeight = 480\<rparr>\<rparr>
                newPoseSolution
            = send page 8 \<lparr>inputs_video = Video \<lparr>videoWidth = 640, videoHeight = 480\<rparr>\<rparr>
                newPoseSolution)"
proof -
  have h1: "fst (tryToInitializeWasm page (run [] (new_Solution (poseConfig None) ''/'', [])))
              = Resolved"
    by (simp add: newPose_def page_def pageLater_def pageNoWebGL_def wasmScript_def noBody_def
      tryToInitializeWasm_eq initialize_eq ready_def handlesSet_def new_Solution_def poseConfig_def
      wasmStepOutcome_def wasmStepState_def wasmStepEvents_def graphStepState_def
      graphStepEvents_def graphFetchEvents_def graphBytes_def fetchFails_def graphUrl_def
      scriptUrls_def registerEvents_def attachEvents_def changeEvents_def alertMessage_def
      setOptions_def configFiles_def defaultLocateFile_def NUMBER_def
      GraphOptionXRef.extend_def GraphOptionChangeRequest.fields_def)
  have h2: "webgl2 page"
    by (simp add: page_def)
  show ?thesis
    by (rule conjI [OF h1 conjI [OF h2 processFrame_ignores_metadata]])
qed

text \<open>
  C10. \<open>close()\<close> never throws, whenever it is called: \<open>Solution.close()\<close> and
  \<open>PoseSolution.close()\<close> always return a resolved promise, and while the WASM solution
  object has not been created they skip the \<open>delete\<close> call and change nothing.
\<close>

theorem close_safe:
  "fst (close m) = Resolved \<and> fst (PoseSolution_close p) = Resolved
   \<and> (solutionWasm (fst m) = None \<longrightarrow> close m = (Resolved, m))
   \<and> (solutionWasm (solution (fst p)) = None \<longrightarrow> PoseSolution_close p = (Resolved, p))"
  by (auto simp: close_def PoseSolution_close_def onSolution_def emit_def split: option.splits)

theorem close_safe_witness:
  "solutionWasm (fst newPose) = None
   \<and> solutionWasm (solution (fst newPoseSolution)) = None
   \<and> close newPose = (Resolved, newPose)
   \<and> PoseSolution_close newPoseSolution = (Resolved, newPoseSolution)"
  using close_safe [of newPose newPoseSolution]
  by (simp add: newPose_def newPoseSolution_def new_Solution_def new_PoseSolution_def)

end
